theory Spec2Isabelle
  imports Complex_Main
begin

section \<open>Python values\<close>

text \<open>
  The candidate record (\<open>pds_data\<close>) and the job record are untyped Python values: nested
  dictionaries and lists of scalars. A dictionary is an association list read with
  \<open>map_of\<close> (first binding of a key); the keys used by the code are all strings.
  Floats are real numbers here, so NaN and the infinities (all truthy) are not represented.
\<close>

datatype pyval =
    PNone
  | PBool bool
  | PInt int
  | PFloat real
  | PStr string
  | PList "pyval list"
  | PDict "(string \<times> pyval) list"

text \<open>Truth value testing, as \<open>if x:\<close> and \<open>a and b\<close> perform it.\<close>

fun truthy :: "pyval \<Rightarrow> bool" where
  "truthy PNone = False"
| "truthy (PBool b) = b"
| "truthy (PInt i) = (i \<noteq> 0)"
| "truthy (PFloat r) = (r \<noteq> 0)"
| "truthy (PStr s) = (s \<noteq> [])"
| "truthy (PList xs) = (xs \<noteq> [])"
| "truthy (PDict kvs) = (kvs \<noteq> [])"

text \<open>\<open>isinstance(v, dict)\<close> and \<open>isinstance(v, list)\<close>.\<close>

fun is_dict :: "pyval \<Rightarrow> bool" where
  "is_dict (PDict kvs) = True"
| "is_dict v = False"

fun is_list :: "pyval \<Rightarrow> bool" where
  "is_list (PList xs) = True"
| "is_list v = False"

text \<open>The name Python prints for the type of a value (\<open>type(v).__name__\<close>).\<close>

fun type_name :: "pyval \<Rightarrow> string" where
  "type_name PNone = ''NoneType''"
| "type_name (PBool b) = ''bool''"
| "type_name (PInt i) = ''int''"
| "type_name (PFloat r) = ''float''"
| "type_name (PStr s) = ''str''"
| "type_name (PList xs) = ''list''"
| "type_name (PDict kvs) = ''dict''"

text \<open>\<open>d.get(k, default)\<close> on a dictionary.\<close>

definition dict_get :: "(string \<times> pyval) list \<Rightarrow> string \<Rightarrow> pyval \<Rightarrow> pyval" where
  "dict_get d k dflt = (case map_of d k of None \<Rightarrow> dflt | Some v \<Rightarrow> v)"

text \<open>
  Exceptions: the class, with what \<open>str(e)\<close> needs. A \<open>KeyError\<close> carries the missing key,
  the other classes carry their message.
\<close>

datatype pyexc =
    AttributeError string
  | KeyError string
  | TypeError string
  | Exception string

text \<open>\<open>repr\<close> of a string without quotes or escapes in it: the string between single quotes.\<close>

definition quoted :: "string \<Rightarrow> string" where
  "quoted s = CHR 0x27 # s @ [CHR 0x27]"

text \<open>\<open>str(e)\<close>: the message; for a \<open>KeyError\<close> the \<open>repr\<close> of the key.\<close>

fun str_exc :: "pyexc \<Rightarrow> string" where
  "str_exc (AttributeError m) = m"
| "str_exc (KeyError k) = quoted k"
| "str_exc (TypeError m) = m"
| "str_exc (Exception m) = m"

text \<open>
  \<open>v.get\<close> on a value that is not a dictionary: none of the other types has the attribute.
\<close>

definition no_get_attribute :: "pyval \<Rightarrow> pyexc" where
  "no_get_attribute v =
     AttributeError (quoted (type_name v) @ '' object has no attribute '' @ quoted ''get'')"

definition get_method :: "pyval \<Rightarrow> string \<Rightarrow> pyval \<Rightarrow> pyexc + pyval" where
  "get_method v k dflt =
     (case v of PDict d \<Rightarrow> Inr (dict_get d k dflt) | _ \<Rightarrow> Inl (no_get_attribute v))"

text \<open>
  \<open>v[k]\<close> with a string key: a dictionary raises \<open>KeyError\<close> for a missing key, a string or a
  list refuses a string index, the remaining types are not subscriptable.
\<close>

fun subscript :: "pyval \<Rightarrow> string \<Rightarrow> pyexc + pyval" where
  "subscript (PDict d) k = (case map_of d k of None \<Rightarrow> Inl (KeyError k) | Some v \<Rightarrow> Inr v)"
| "subscript (PStr s) k = Inl (TypeError ''string indices must be integers'')"
| "subscript (PList xs) k = Inl (TypeError ''list indices must be integers or slices, not str'')"
| "subscript v k = Inl (TypeError (quoted (type_name v) @ '' object is not subscriptable''))"

text \<open>Sequencing of statements that may raise: the first exception ends the block.\<close>

definition bind_exc :: "pyexc + 'a \<Rightarrow> ('a \<Rightarrow> pyexc + 'b) \<Rightarrow> pyexc + 'b" where
  "bind_exc r f = (case r of Inl e \<Rightarrow> Inl e | Inr v \<Rightarrow> f v)"

section \<open>Background analyzer (\<open>PDSScoringComparisonTest.analyze_pds_background\<close>)\<close>

text \<open>The \<open>analysis\<close> dictionary of the four buckets.\<close>

record analysis =
  education_fields :: "pyval list"
  work_experience_areas :: "pyval list"
  training_areas :: "pyval list"
  key_skills :: "pyval list"

text \<open>
  Body of \<open>for course in courses\<close>: a dictionary entry with a truthy \<open>course\<close> appends it to
  \<open>education_fields\<close> (the accumulator); anything else leaves the list as it is.
\<close>

definition add_course :: "pyval list \<Rightarrow> pyval \<Rightarrow> pyval list" where
  "add_course acc course =
     (case course of
        PDict c \<Rightarrow>
          if truthy (dict_get c ''course'' PNone)
          then acc @ [dict_get c ''course'' PNone] else acc
      | _ \<Rightarrow> acc)"

text \<open>
  Body of \<open>for level in [...]\<close>: the level must be a key of \<open>education\<close> with a truthy value;
  a list is walked entry by entry, a single dictionary is treated as one entry, any other
  value is ignored.
\<close>

definition visit_level :: "(string \<times> pyval) list \<Rightarrow> pyval list \<Rightarrow> string \<Rightarrow> pyval list" where
  "visit_level education acc level =
     (case map_of education level of
        None \<Rightarrow> acc
      | Some courses \<Rightarrow>
          if \<not> truthy courses then acc
          else (case courses of
                  PList cs \<Rightarrow> foldl add_course acc cs
                | PDict c \<Rightarrow>
                    if truthy (dict_get c ''course'' PNone)
                    then acc @ [dict_get c ''course'' PNone] else acc
                | _ \<Rightarrow> acc))"

definition education_levels :: "string list" where
  "education_levels = [''college'', ''graduate_studies'', ''post_graduate'']"

definition analyze_education :: "(string \<times> pyval) list \<Rightarrow> pyval list" where
  "analyze_education pds_data =
     (case dict_get pds_data ''educational_background'' (PDict []) of
        PDict education \<Rightarrow> foldl (visit_level education) [] education_levels
      | _ \<Rightarrow> [])"

text \<open>
  Body of \<open>for exp in work_experience\<close>: a dictionary entry appends its truthy
  \<open>position_title\<close>, then its truthy \<open>department_office\<close>.
\<close>

definition add_experience :: "pyval list \<Rightarrow> pyval \<Rightarrow> pyval list" where
  "add_experience acc exp_entry =
     (case exp_entry of
        PDict e \<Rightarrow>
          (let position = dict_get e ''position_title'' (PStr []);
               office = dict_get e ''department_office'' (PStr []);
               acc1 = (if truthy position then acc @ [position] else acc)
           in if truthy office then acc1 @ [office] else acc1)
      | _ \<Rightarrow> acc)"

definition analyze_work :: "(string \<times> pyval) list \<Rightarrow> pyval list" where
  "analyze_work pds_data =
     (case dict_get pds_data ''work_experience'' (PList []) of
        PList work_experience \<Rightarrow> foldl add_experience [] work_experience
      | _ \<Rightarrow> [])"

text \<open>Body of \<open>for training in learning_development\<close>.\<close>

definition add_training :: "pyval list \<Rightarrow> pyval \<Rightarrow> pyval list" where
  "add_training acc training =
     (case training of
        PDict t \<Rightarrow>
          (let title = dict_get t ''title'' (PStr [])
           in if truthy title then acc @ [title] else acc)
      | _ \<Rightarrow> acc)"

definition analyze_training :: "(string \<times> pyval) list \<Rightarrow> pyval list" where
  "analyze_training pds_data =
     (case dict_get pds_data ''learning_development'' (PList []) of
        PList learning_development \<Rightarrow> foldl add_training [] learning_development
      | _ \<Rightarrow> [])"

text \<open>
  The whole function. \<open>pds_data.get\<close> is its first operation on the argument: a value that
  is not a dictionary has no \<open>get\<close> and raises \<open>AttributeError\<close>. Every later access is
  guarded by an \<open>isinstance\<close> test. \<open>key_skills\<close> is initialised and never written.
\<close>

definition analyze_pds_background :: "pyval \<Rightarrow> pyexc + analysis" where
  "analyze_pds_background pds_data =
     (case pds_data of
        PDict d \<Rightarrow>
          Inr \<lparr> education_fields = analyze_education d,
                work_experience_areas = analyze_work d,
                training_areas = analyze_training d,
                key_skills = [] \<rparr>
      | _ \<Rightarrow> Inl (no_get_attribute pds_data))"

section \<open>Scoring entry point (\<open>PDSScoringComparisonTest.calculate_score\<close>)\<close>

text \<open>
  The assessment engine (\<open>UniversityAssessmentEngine.assess_candidate_for_lspu_job\<close>) is
  imported from a module that is not part of the sources, so it is a parameter
  \<open>assess\<close>: given the candidate and the job it returns a value or raises an exception.
  Only instances of \<open>Exception\<close> are modelled (\<open>KeyboardInterrupt\<close> and \<open>SystemExit\<close> are
  not), and the handler's \<open>print\<close> calls are left out.

  The \<open>try\<close> block: six subscripts of \<open>job_data\<close> in source order, the call, then five
  \<open>get\<close> calls on its result.
\<close>

definition calculate_score_try ::
  "(pyval \<Rightarrow> pyval \<Rightarrow> pyexc + pyval) \<Rightarrow> pyval \<Rightarrow> pyval \<Rightarrow> pyexc + pyval" where
  "calculate_score_try assess pds_data job_data =
     bind_exc (subscript job_data ''position_title'') (\<lambda>position_title.
     bind_exc (subscript job_data ''department_office'') (\<lambda>department_office.
     bind_exc (subscript job_data ''education_requirements'') (\<lambda>education_requirements.
     bind_exc (subscript job_data ''training_requirements'') (\<lambda>training_requirements.
     bind_exc (subscript job_data ''experience_requirements'') (\<lambda>experience_requirements.
     bind_exc (subscript job_data ''eligibility_requirements'') (\<lambda>eligibility_requirements.
     bind_exc (assess pds_data
                 (PDict [(''position_title'', position_title),
                         (''department_office'', department_office),
                         (''education_requirements'', education_requirements),
                         (''training_requirements'', training_requirements),
                         (''experience_requirements'', experience_requirements),
                         (''eligibility_requirements'', eligibility_requirements)]))
       (\<lambda>assessment_result.
     bind_exc (get_method assessment_result ''total_score'' (PInt 0)) (\<lambda>total.
     bind_exc (get_method assessment_result ''education_score'' (PInt 0)) (\<lambda>education.
     bind_exc (get_method assessment_result ''experience_score'' (PInt 0)) (\<lambda>experience.
     bind_exc (get_method assessment_result ''training_score'' (PInt 0)) (\<lambda>training.
     bind_exc (get_method assessment_result ''eligibility_score'' (PInt 0)) (\<lambda>eligibility.
       Inr (PDict [(''total_score'', total),
                   (''education_score'', education),
                   (''experience_score'', experience),
                   (''training_score'', training),
                   (''eligibility_score'', eligibility),
                   (''assessment_details'', assessment_result)])))))))))))))"

text \<open>The dictionary returned by the \<open>except Exception as e\<close> handler.\<close>

definition error_result :: "pyexc \<Rightarrow> pyval" where
  "error_result e =
     PDict [(''total_score'', PInt 0),
            (''education_score'', PInt 0),
            (''experience_score'', PInt 0),
            (''training_score'', PInt 0),
            (''eligibility_score'', PInt 0),
            (''error'', PStr (str_exc e))]"

definition calculate_score ::
  "(pyval \<Rightarrow> pyval \<Rightarrow> pyexc + pyval) \<Rightarrow> pyval \<Rightarrow> pyval \<Rightarrow> pyexc + pyval" where
  "calculate_score assess pds_data job_data =
     (case calculate_score_try assess pds_data job_data of
        Inl e \<Rightarrow> Inr (error_result e)
      | Inr r \<Rightarrow> Inr r)"

text \<open>
  An engine whose computation raises \<open>e\<close> on every input: what the absent engine does at an
  input where it fails.
\<close>

definition raising_engine :: "pyexc \<Rightarrow> pyval \<Rightarrow> pyval \<Rightarrow> pyexc + pyval" where
  "raising_engine e pds_data lspu_job = Inl e"

section \<open>Text helpers\<close>











section \<open>Scoring engine (section 4.4 of the specification)\<close>

text \<open>
  Modelled from the spec: the \<open>AssessmentResult\<close> of the scoring engine; the engine's module
  (\<open>assessment_engine\<close>) is not among the sources. Scores are real numbers, the \<open>error\<close>
  field is optional.
\<close>

record assessment_result =
  total_score :: real
  education_score :: real
  experience_score :: real
  training_score :: real
  eligibility_score :: real
  error :: "string option"
















section \<open>Field validator (sections 4.1 and 4.2 of the specification)\<close>

















section \<open>Auxiliary facts: the analyzer loops\<close>

lemmas analyzer_defs =
  analyze_pds_background_def analyze_education_def analyze_work_def analyze_training_def
  dict_get_def visit_level_def education_levels_def add_course_def add_experience_def
  add_training_def Let_def

lemma foldl_append_step:
  assumes "\<And>acc x. f acc x = acc @ f [] x"
  shows "foldl f acc xs = acc @ concat (map (f []) xs)"
proof (induction xs arbitrary: acc)
  case Nil
  show ?case by simp
next
  case (Cons x xs)
  show ?case using assms[of acc x] Cons.IH[of "f acc x"] by simp
qed

lemma add_course_append: "add_course acc c = acc @ add_course [] c"
  by (simp add: add_course_def split: pyval.splits)

lemma add_experience_append: "add_experience acc e = acc @ add_experience [] e"
  by (simp add: add_experience_def Let_def split: pyval.splits)

lemma add_training_append: "add_training acc e = acc @ add_training [] e"
  by (simp add: add_training_def Let_def split: pyval.splits)

lemma foldl_add_course: "foldl add_course acc cs = acc @ concat (map (add_course []) cs)"
  by (rule foldl_append_step) (rule add_course_append)

lemma foldl_add_experience:
  "foldl add_experience acc es = acc @ concat (map (add_experience []) es)"
  by (rule foldl_append_step) (rule add_experience_append)

lemma foldl_add_training:
  "foldl add_training acc es = acc @ concat (map (add_training []) es)"
  by (rule foldl_append_step) (rule add_training_append)

lemma visit_level_append: "visit_level edu acc l = acc @ visit_level edu [] l"
  by (simp add: visit_level_def foldl_add_course[of acc] foldl_add_course[of "[]"] split: option.splits pyval.splits)

lemma foldl_visit_level:
  "foldl (visit_level edu) acc ls = acc @ concat (map (visit_level edu []) ls)"
  by (rule foldl_append_step) (rule visit_level_append)

lemma analyze_Inr:
  "analyze_pds_background (PDict d) = Inr p \<Longrightarrow>
     education_fields p = analyze_education d \<and> work_experience_areas p = analyze_work d \<and>
     training_areas p = analyze_training d \<and> key_skills p = []"
  by (auto simp: analyze_pds_background_def)

lemma analyze_education_dict:
  "map_of d ''educational_background'' = Some (PDict edu) \<Longrightarrow>
   analyze_education d =
     visit_level edu [] ''college'' @ visit_level edu [] ''graduate_studies'' @
     visit_level edu [] ''post_graduate''"
  unfolding analyze_education_def dict_get_def foldl_visit_level
  by (simp add: education_levels_def)

lemma visit_level_list:
  "map_of edu level = Some (PList cs) \<Longrightarrow> visit_level edu [] level = concat (map (add_course []) cs)"
  by (cases cs) (simp_all add: visit_level_def foldl_add_course)

lemma visit_level_single:
  "map_of edu level = Some (PDict c) \<Longrightarrow> visit_level edu [] level = add_course [] (PDict c)"
  by (cases c) (simp_all add: visit_level_def add_course_def dict_get_def)

lemma visit_level_forms:
  assumes "map_of edu l = map_of edu' l \<or>
           (\<exists>c. map_of edu l = Some (PDict c) \<and> map_of edu' l = Some (PList [PDict c]))"
  shows "visit_level edu [] l = visit_level edu' [] l"
  using assms
proof
  assume "map_of edu l = map_of edu' l"
  then show ?thesis by (simp add: visit_level_def)
next
  assume "\<exists>c. map_of edu l = Some (PDict c) \<and> map_of edu' l = Some (PList [PDict c])"
  then obtain c where a: "map_of edu l = Some (PDict c)" and b: "map_of edu' l = Some (PList [PDict c])"
    by blast
  show ?thesis by (simp add: visit_level_single[OF a] visit_level_list[OF b])
qed

lemma analyze_work_list:
  "map_of d ''work_experience'' = Some (PList es) \<Longrightarrow>
   analyze_work d = concat (map (add_experience []) es)"
  by (simp add: analyze_work_def dict_get_def foldl_add_experience)

lemma analyze_training_list:
  "map_of d ''learning_development'' = Some (PList es) \<Longrightarrow>
   analyze_training d = concat (map (add_training []) es)"
  by (simp add: analyze_training_def dict_get_def foldl_add_training)

lemma add_experience_dict:
  "add_experience [] (PDict e) =
     (if truthy (dict_get e ''position_title'' (PStr []))
      then [dict_get e ''position_title'' (PStr [])] else []) @
     (if truthy (dict_get e ''department_office'' (PStr []))
      then [dict_get e ''department_office'' (PStr [])] else [])"
  by (simp add: add_experience_def Let_def)

lemma add_course_skip: "\<not> is_dict c \<Longrightarrow> add_course [] c = []"
  by (cases c) (simp_all add: add_course_def)

lemma add_experience_skip: "\<not> is_dict c \<Longrightarrow> add_experience [] c = []"
  by (cases c) (simp_all add: add_experience_def)

lemma add_training_skip: "\<not> is_dict c \<Longrightarrow> add_training [] c = []"
  by (cases c) (simp_all add: add_training_def)

lemma concat_map_filter_skip:
  assumes "\<And>x. \<not> P x \<Longrightarrow> f x = []"
  shows "concat (map f (filter P xs)) = concat (map f xs)"
  by (induction xs) (simp_all add: assms)








lemma analyze_education_skip:
  "map_of d ''educational_background'' = Some v \<Longrightarrow> \<not> is_dict v \<Longrightarrow> analyze_education d = []"
  by (cases v) (simp_all add: analyze_education_def dict_get_def)

lemma analyze_work_skip:
  "map_of d ''work_experience'' = Some v \<Longrightarrow> \<not> is_list v \<Longrightarrow> analyze_work d = []"
  by (cases v) (simp_all add: analyze_work_def dict_get_def)

lemma analyze_training_skip:
  "map_of d ''learning_development'' = Some v \<Longrightarrow> \<not> is_list v \<Longrightarrow> analyze_training d = []"
  by (cases v) (simp_all add: analyze_training_def dict_get_def)

lemma analyze_missing:
  "map_of d ''educational_background'' = None \<Longrightarrow> analyze_education d = []"
  "map_of d ''work_experience'' = None \<Longrightarrow> analyze_work d = []"
  "map_of d ''learning_development'' = None \<Longrightarrow> analyze_training d = []"
  by (simp_all add: analyze_education_def analyze_work_def analyze_training_def dict_get_def
        visit_level_def education_levels_def)

lemma visit_level_skip:
  "map_of edu level = Some v \<Longrightarrow> \<not> is_dict v \<Longrightarrow> \<not> is_list v \<Longrightarrow> visit_level edu acc level = acc"
  by (cases v) (simp_all add: visit_level_def)

lemma visit_level_missing: "map_of edu level = None \<Longrightarrow> visit_level edu acc level = acc"
  by (simp add: visit_level_def)

lemma training_collected:
  "concat (map (add_training []) es) =
     [dict_get t ''title'' (PStr []). PDict t \<leftarrow> es, truthy (dict_get t ''title'' (PStr []))]"
  by (induction es) (simp_all add: add_training_def Let_def split: pyval.splits)

lemma training_count:
  "truthy v \<Longrightarrow>
   count_list (concat (map (add_training []) es)) v =
     length [t. PDict t \<leftarrow> es, dict_get t ''title'' (PStr []) = v]"
  by (induction es) (auto simp: add_training_def Let_def split: pyval.splits)

lemma work_collected:
  "concat (map (add_experience []) es) =
     [v. PDict x \<leftarrow> es,
         v \<leftarrow> [dict_get x ''position_title'' (PStr []), dict_get x ''department_office'' (PStr [])],
         truthy v]"
  by (induction es) (simp_all add: add_experience_def Let_def split: pyval.splits)

lemma work_count:
  "truthy v \<Longrightarrow>
   count_list (concat (map (add_experience []) es)) v =
     length [x. PDict x \<leftarrow> es, dict_get x ''position_title'' (PStr []) = v] +
     length [x. PDict x \<leftarrow> es, dict_get x ''department_office'' (PStr []) = v]"
  by (induction es) (auto simp: add_experience_def Let_def split: pyval.splits)

lemma course_collected:
  "concat (map (add_course []) cs) =
     [v. entry \<leftarrow> cs, PDict c \<leftarrow> [entry], v \<leftarrow> [dict_get c ''course'' PNone], truthy v]"
  by (induction cs) (simp_all add: add_course_def split: pyval.splits)

lemma course_count:
  "truthy v \<Longrightarrow>
   count_list (concat (map (add_course []) cs)) v =
     length [c. entry \<leftarrow> cs, PDict c \<leftarrow> [entry], dict_get c ''course'' PNone = v]"
  by (induction cs) (auto simp: add_course_def split: pyval.splits)

lemma visit_level_entries:
  "visit_level edu [] level =
     concat (map (add_course [])
       (case map_of edu level of Some (PList cs) \<Rightarrow> cs | Some (PDict c) \<Rightarrow> [PDict c] | _ \<Rightarrow> []))"
proof (cases "map_of edu level")
  case None
  then show ?thesis by (simp add: visit_level_missing)
next
  case (Some w)
  then show ?thesis
    by (cases w) (simp_all add: visit_level_list visit_level_single visit_level_skip)
qed

lemma level_collected:
  "visit_level edu [] =
     (\<lambda>level. [v. entry \<leftarrow> (case map_of edu level of
                      Some (PList cs) \<Rightarrow> cs | Some (PDict c) \<Rightarrow> [PDict c] | _ \<Rightarrow> []),
         PDict c \<leftarrow> [entry], v \<leftarrow> [dict_get c ''course'' PNone], truthy v])"
  by (rule ext) (simp only: visit_level_entries course_collected)

lemma level_count:
  "truthy v \<Longrightarrow>
   count_list (visit_level edu [] level) v =
     length [c. entry \<leftarrow> (case map_of edu level of
                      Some (PList cs) \<Rightarrow> cs | Some (PDict c) \<Rightarrow> [PDict c] | _ \<Rightarrow> []),
                PDict c \<leftarrow> [entry], dict_get c ''course'' PNone = v]"
  by (simp only: visit_level_entries course_count)

lemma education_collected:
  assumes "map_of d ''educational_background'' = Some (PDict edu)"
  shows "analyze_education d =
     [v. level \<leftarrow> [''college'', ''graduate_studies'', ''post_graduate''],
         entry \<leftarrow> (case map_of edu level of
                      Some (PList cs) \<Rightarrow> cs | Some (PDict c) \<Rightarrow> [PDict c] | _ \<Rightarrow> []),
         PDict c \<leftarrow> [entry], v \<leftarrow> [dict_get c ''course'' PNone], truthy v]"
proof -
  have "analyze_education d =
          concat (map (visit_level edu []) [''college'', ''graduate_studies'', ''post_graduate''])"
    using analyze_education_dict[OF assms] by simp
  then show ?thesis by (simp only: level_collected)
qed

lemma education_count:
  assumes "map_of d ''educational_background'' = Some (PDict edu)" and "truthy v"
  shows "count_list (analyze_education d) v =
     length [c. level \<leftarrow> [''college'', ''graduate_studies'', ''post_graduate''],
                entry \<leftarrow> (case map_of edu level of
                      Some (PList cs) \<Rightarrow> cs | Some (PDict c) \<Rightarrow> [PDict c] | _ \<Rightarrow> []),
                PDict c \<leftarrow> [entry], dict_get c ''course'' PNone = v]"
proof -
  have "count_list (analyze_education d) v =
          count_list (visit_level edu [] ''college'') v +
          (count_list (visit_level edu [] ''graduate_studies'') v +
           count_list (visit_level edu [] ''post_graduate'') v)"
    using analyze_education_dict[OF assms(1)] by simp
  then show ?thesis
    by (simp only: level_count[OF assms(2)] list.map concat.simps length_append append_Nil2
          list.size add_0_right)
qed

section \<open>Auxiliary facts: the scoring entry point\<close>

lemma subscript_message: "subscript v k = Inl e \<Longrightarrow> str_exc e \<noteq> []"
  by (cases v) (auto simp: quoted_def split: option.splits)

lemma get_method_message: "get_method v k dflt = Inl e \<Longrightarrow> str_exc e \<noteq> []"
  by (cases v) (auto simp: get_method_def no_get_attribute_def quoted_def)

lemma bind_exc_Inl:
  "bind_exc r f = Inl e \<Longrightarrow> r = Inl e \<or> (\<exists>v. r = Inr v \<and> f v = Inl e)"
  by (cases r) (simp_all add: bind_exc_def)

lemma calculate_score_try_source:
  assumes "calculate_score_try assess pds_data job_data = Inl e"
  shows "str_exc e \<noteq> [] \<or> (\<exists>lspu_job. assess pds_data lspu_job = Inl e)"
  using assms unfolding calculate_score_try_def
  by (auto dest!: bind_exc_Inl dest: subscript_message get_method_message)

section \<open>Auxiliary facts: the scoring engine\<close>











section \<open>Auxiliary facts: the field validator\<close>


























section \<open>Verified properties\<close>

subsection \<open>C1: the scoring entry point catches every exception\<close>

text \<open>
  C1, as the code has it. Whatever the engine, the candidate and the job are,
  \<open>calculate_score\<close> returns a dictionary and raises nothing. When the computation in
  the \<open>try\<close> block raises an exception \<open>e\<close>, the dictionary returned has
  \<open>total_score\<close>, \<open>education_score\<close>, \<open>experience_score\<close>, \<open>training_score\<close> and
  \<open>eligibility_score\<close> all 0 and its \<open>error\<close> field is \<open>str(e)\<close>. That string is
  non-empty for every exception raised by the entry point's own statements (a job record
  that lacks one of the six fields or is not subscriptable, an engine result without
  \<open>get\<close>); it can be empty only when the engine itself raised an exception whose message
  is empty.
\<close>

theorem calculate_score_catches:
  "(\<exists>r. calculate_score assess pds_data job_data = Inr r) \<and>
   (\<forall>e. calculate_score_try assess pds_data job_data = Inl e \<longrightarrow>
        calculate_score assess pds_data job_data =
          Inr (PDict [(''total_score'', PInt 0), (''education_score'', PInt 0),
                      (''experience_score'', PInt 0), (''training_score'', PInt 0),
                      (''eligibility_score'', PInt 0), (''error'', PStr (str_exc e))]) \<and>
        (str_exc e = [] \<longrightarrow> (\<exists>lspu_job. assess pds_data lspu_job = Inl e)))"
proof (intro conjI allI impI)
  show "\<exists>r. calculate_score assess pds_data job_data = Inr r"
    by (simp add: calculate_score_def split: sum.splits)
next
  fix e assume "calculate_score_try assess pds_data job_data = Inl e"
  then show "calculate_score assess pds_data job_data =
          Inr (PDict [(''total_score'', PInt 0), (''education_score'', PInt 0),
                      (''experience_score'', PInt 0), (''training_score'', PInt 0),
                      (''eligibility_score'', PInt 0), (''error'', PStr (str_exc e))])"
    by (simp add: calculate_score_def error_result_def)
next
  fix e assume "calculate_score_try assess pds_data job_data = Inl e" and "str_exc e = []"
  then show "\<exists>lspu_job. assess pds_data lspu_job = Inl e"
    using calculate_score_try_source by blast
qed

text \<open>
  An instance of C1: a job record without \<open>position_title\<close> raises \<open>KeyError\<close> in the
  \<open>try\<close> block, and the result carries the quoted key as its error.
\<close>

theorem calculate_score_catches_witness:
  "calculate_score_try (raising_engine (Exception ''no data'')) PNone (PDict []) =
     Inl (KeyError ''position_title'') \<and>
   calculate_score (raising_engine (Exception ''no data'')) PNone (PDict []) =
     Inr (PDict [(''total_score'', PInt 0), (''education_score'', PInt 0),
                 (''experience_score'', PInt 0), (''training_score'', PInt 0),
                 (''eligibility_score'', PInt 0),
                 (''error'', PStr (CHR 0x27 # ''position_title'' @ [CHR 0x27]))])"
proof -
  have h: "calculate_score_try (raising_engine (Exception ''no data'')) PNone (PDict []) =
             Inl (KeyError ''position_title'')"
    by (simp add: calculate_score_try_def bind_exc_def)
  show ?thesis
    using h calculate_score_catches[of "raising_engine (Exception ''no data'')" PNone "PDict []"]
    by (simp add: quoted_def)
qed

text \<open>
  The \<open>error\<close> field is not always non-empty: when the engine raises an exception
  without a message (as \<open>raise Exception()\<close> or a failed bare \<open>assert\<close> does), \<open>str(e)\<close>
  is the empty string and that is what the handler stores.
\<close>

theorem calculate_score_empty_error:
  "calculate_score (raising_engine (Exception [])) PNone
     (PDict [(''position_title'', PStr ''Instructor I''),
             (''department_office'', PStr ''CCS''),
             (''education_requirements'', PStr ''Master degree''),
             (''training_requirements'', PStr []),
             (''experience_requirements'', PStr []),
             (''eligibility_requirements'', PStr [])]) =
   Inr (PDict [(''total_score'', PInt 0), (''education_score'', PInt 0),
               (''experience_score'', PInt 0), (''training_score'', PInt 0),
               (''eligibility_score'', PInt 0), (''error'', PStr [])])"
  by (simp add: calculate_score_def calculate_score_try_def bind_exc_def raising_engine_def
        error_result_def)

subsection \<open>C2: education levels, single entry or list of entries\<close>

text \<open>
  C2. For a candidate record whose \<open>educational_background\<close> is a dictionary, the
  education bucket is what the levels \<open>college\<close>, \<open>graduate_studies\<close> and \<open>post_graduate\<close>
  contribute, in this order. A level holding a list contributes the truthy \<open>course\<close> value
  of each of its dictionary entries; a level holding a single dictionary contributes exactly
  what the one-element list of that dictionary would. Hence two records that differ only in
  writing some levels as a single object instead of a one-element list have the same
  education bucket.
\<close>

theorem education_forms_uniform:
  assumes "analyze_pds_background (PDict d) = Inr p"
      and "map_of d ''educational_background'' = Some (PDict edu)"
  shows "education_fields p =
           visit_level edu [] ''college'' @ visit_level edu [] ''graduate_studies'' @
           visit_level edu [] ''post_graduate'' \<and>
         (\<forall>level cs. map_of edu level = Some (PList cs) \<longrightarrow>
            visit_level edu [] level = concat (map (add_course []) cs)) \<and>
         (\<forall>level c. map_of edu level = Some (PDict c) \<longrightarrow>
            visit_level edu [] level = concat (map (add_course []) [PDict c])) \<and>
         (\<forall>c. add_course [] (PDict c) =
            (if truthy (dict_get c ''course'' PNone) then [dict_get c ''course'' PNone] else [])) \<and>
         (\<forall>d' p' edu'.
            analyze_pds_background (PDict d') = Inr p' \<and>
            map_of d' ''educational_background'' = Some (PDict edu') \<and>
            (\<forall>l \<in> set education_levels.
               map_of edu l = map_of edu' l \<or>
               (\<exists>c. map_of edu l = Some (PDict c) \<and> map_of edu' l = Some (PList [PDict c])))
            \<longrightarrow> education_fields p' = education_fields p)"
proof (intro conjI allI impI)
  show "education_fields p =
           visit_level edu [] ''college'' @ visit_level edu [] ''graduate_studies'' @
           visit_level edu [] ''post_graduate''"
    using analyze_Inr[OF assms(1)] analyze_education_dict[OF assms(2)] by simp
next
  fix level cs assume "map_of edu level = Some (PList cs)"
  then show "visit_level edu [] level = concat (map (add_course []) cs)" by (rule visit_level_list)
next
  fix level c assume "map_of edu level = Some (PDict c)"
  then show "visit_level edu [] level = concat (map (add_course []) [PDict c])"
    by (simp add: visit_level_single)
next
  fix c show "add_course [] (PDict c) =
            (if truthy (dict_get c ''course'' PNone) then [dict_get c ''course'' PNone] else [])"
    by (simp add: add_course_def)
next
  fix d' p' edu'
  assume h: "analyze_pds_background (PDict d') = Inr p' \<and>
            map_of d' ''educational_background'' = Some (PDict edu') \<and>
            (\<forall>l \<in> set education_levels.
               map_of edu l = map_of edu' l \<or>
               (\<exists>c. map_of edu l = Some (PDict c) \<and> map_of edu' l = Some (PList [PDict c])))"
  have l: "visit_level edu [] l = visit_level edu' [] l" if "l \<in> set education_levels" for l
    using h that by (intro visit_level_forms) blast
  have "education_fields p' = analyze_education d'" using h analyze_Inr by blast
  also have "\<dots> = visit_level edu' [] ''college'' @ visit_level edu' [] ''graduate_studies'' @
           visit_level edu' [] ''post_graduate''" using h analyze_education_dict by blast
  also have "\<dots> = visit_level edu [] ''college'' @ visit_level edu [] ''graduate_studies'' @
           visit_level edu [] ''post_graduate''"
    using l[of "''college''"] l[of "''graduate_studies''"] l[of "''post_graduate''"]
    by (simp add: education_levels_def)
  also have "\<dots> = education_fields p"
    using analyze_Inr[OF assms(1)] analyze_education_dict[OF assms(2)] by simp
  finally show "education_fields p' = education_fields p" .
qed

text \<open>
  An instance of C2: \<open>college\<close> as a single object and as a one-element list, next to a
  \<open>graduate_studies\<close> list, give the same bucket.
\<close>

theorem education_forms_uniform_witness:
  "analyze_pds_background
     (PDict [(''educational_background'',
              PDict [(''college'', PDict [(''course'', PStr ''BSCS'')]),
                     (''graduate_studies'', PList [PDict [(''course'', PStr ''MBA'')], PNone])])]) =
   Inr \<lparr> education_fields = [PStr ''BSCS'', PStr ''MBA''], work_experience_areas = [],
         training_areas = [], key_skills = [] \<rparr> \<and>
   analyze_pds_background
     (PDict [(''educational_background'',
              PDict [(''college'', PList [PDict [(''course'', PStr ''BSCS'')]]),
                     (''graduate_studies'', PList [PDict [(''course'', PStr ''MBA'')], PNone])])]) =
   Inr \<lparr> education_fields = [PStr ''BSCS'', PStr ''MBA''], work_experience_areas = [],
         training_areas = [], key_skills = [] \<rparr> \<and>
   education_fields \<lparr> education_fields = [PStr ''BSCS'', PStr ''MBA''], work_experience_areas = [],
         training_areas = [], key_skills = [] \<rparr> =
     visit_level [(''college'', PDict [(''course'', PStr ''BSCS'')]),
                  (''graduate_studies'', PList [PDict [(''course'', PStr ''MBA'')], PNone])]
       [] ''college'' @
     visit_level [(''college'', PDict [(''course'', PStr ''BSCS'')]),
                  (''graduate_studies'', PList [PDict [(''course'', PStr ''MBA'')], PNone])]
       [] ''graduate_studies'' @
     visit_level [(''college'', PDict [(''course'', PStr ''BSCS'')]),
                  (''graduate_studies'', PList [PDict [(''course'', PStr ''MBA'')], PNone])]
       [] ''post_graduate''"
proof -
  have h1: "analyze_pds_background
     (PDict [(''educational_background'',
              PDict [(''college'', PDict [(''course'', PStr ''BSCS'')]),
                     (''graduate_studies'', PList [PDict [(''course'', PStr ''MBA'')], PNone])])]) =
   Inr \<lparr> education_fields = [PStr ''BSCS'', PStr ''MBA''], work_experience_areas = [],
         training_areas = [], key_skills = [] \<rparr>"
    by (simp add: analyzer_defs)
  have h2: "map_of [(''educational_background'',
              PDict [(''college'', PDict [(''course'', PStr ''BSCS'')]),
                     (''graduate_studies'', PList [PDict [(''course'', PStr ''MBA'')], PNone])])]
              ''educational_background'' =
            Some (PDict [(''college'', PDict [(''course'', PStr ''BSCS'')]),
                     (''graduate_studies'', PList [PDict [(''course'', PStr ''MBA'')], PNone])])"
    by simp
  have h3: "analyze_pds_background
     (PDict [(''educational_background'',
              PDict [(''college'', PList [PDict [(''course'', PStr ''BSCS'')]]),
                     (''graduate_studies'', PList [PDict [(''course'', PStr ''MBA'')], PNone])])]) =
   Inr \<lparr> education_fields = [PStr ''BSCS'', PStr ''MBA''], work_experience_areas = [],
         training_areas = [], key_skills = [] \<rparr>"
    by (simp add: analyzer_defs)
  note r = education_forms_uniform[OF h1 h2, THEN conjunct1]
  show ?thesis by (intro conjI h1 h3 r)
qed

subsection \<open>C3: position title and office of every work-experience entry\<close>

text \<open>
  C3. For a candidate record whose \<open>work_experience\<close> is a list, every dictionary entry
  of the list, wherever it stands, contributes to \<open>work_experience_areas\<close> its
  \<open>position_title\<close> and then its \<open>department_office\<close>, each on its own: a value that is
  present and non-empty is in the bucket whether or not the other one is, and an entry with
  both contributes the two as separate consecutive elements, between the contributions of
  the entries before it and of those after it.
\<close>

theorem work_experience_both_fields:
  assumes "analyze_pds_background (PDict d) = Inr p"
      and "map_of d ''work_experience'' = Some (PList (es1 @ PDict e # es2))"
  shows "work_experience_areas p =
           foldl add_experience [] es1 @
           (if truthy (dict_get e ''position_title'' (PStr []))
            then [dict_get e ''position_title'' (PStr [])] else []) @
           (if truthy (dict_get e ''department_office'' (PStr []))
            then [dict_get e ''department_office'' (PStr [])] else []) @
           foldl add_experience [] es2 \<and>
         (\<forall>v. map_of e ''position_title'' = Some v \<and> truthy v \<longrightarrow>
              v \<in> set (work_experience_areas p)) \<and>
         (\<forall>w. map_of e ''department_office'' = Some w \<and> truthy w \<longrightarrow>
              w \<in> set (work_experience_areas p)) \<and>
         (\<forall>v w. map_of e ''position_title'' = Some v \<and> truthy v \<and>
                map_of e ''department_office'' = Some w \<and> truthy w \<longrightarrow>
              work_experience_areas p =
                foldl add_experience [] es1 @ [v, w] @ foldl add_experience [] es2)"
proof -
  have eq: "work_experience_areas p =
           foldl add_experience [] es1 @
           (if truthy (dict_get e ''position_title'' (PStr []))
            then [dict_get e ''position_title'' (PStr [])] else []) @
           (if truthy (dict_get e ''department_office'' (PStr []))
            then [dict_get e ''department_office'' (PStr [])] else []) @
           foldl add_experience [] es2"
    using analyze_Inr[OF assms(1)] analyze_work_list[OF assms(2)]
    by (simp add: foldl_add_experience[of "[]"] add_experience_dict)
  show ?thesis
  proof (intro conjI allI impI)
    show "work_experience_areas p =
           foldl add_experience [] es1 @
           (if truthy (dict_get e ''position_title'' (PStr []))
            then [dict_get e ''position_title'' (PStr [])] else []) @
           (if truthy (dict_get e ''department_office'' (PStr []))
            then [dict_get e ''department_office'' (PStr [])] else []) @
           foldl add_experience [] es2" by (rule eq)
  next
    fix v assume "map_of e ''position_title'' = Some v \<and> truthy v"
    then show "v \<in> set (work_experience_areas p)" by (simp add: eq dict_get_def)
  next
    fix w assume "map_of e ''department_office'' = Some w \<and> truthy w"
    then show "w \<in> set (work_experience_areas p)" by (simp add: eq dict_get_def)
  next
    fix v w assume "map_of e ''position_title'' = Some v \<and> truthy v \<and>
                map_of e ''department_office'' = Some w \<and> truthy w"
    then show "work_experience_areas p =
                foldl add_experience [] es1 @ [v, w] @ foldl add_experience [] es2"
      by (simp add: eq dict_get_def)
  qed
qed

text \<open>
  An instance of C3: an entry with both values after an entry that has only a position
  title.
\<close>

theorem work_experience_both_fields_witness:
  "analyze_pds_background
     (PDict [(''work_experience'',
              PList [PDict [(''position_title'', PStr ''Clerk'')],
                     PDict [(''position_title'', PStr ''HR Officer''),
                            (''department_office'', PStr ''HRMO'')]])]) =
   Inr \<lparr> education_fields = [],
         work_experience_areas = [PStr ''Clerk'', PStr ''HR Officer'', PStr ''HRMO''],
         training_areas = [], key_skills = [] \<rparr> \<and>
   work_experience_areas
     \<lparr> education_fields = [],
       work_experience_areas = [PStr ''Clerk'', PStr ''HR Officer'', PStr ''HRMO''],
       training_areas = [], key_skills = [] \<rparr> =
     foldl add_experience [] [PDict [(''position_title'', PStr ''Clerk'')]] @
     [PStr ''HR Officer'', PStr ''HRMO''] @ foldl add_experience [] []"
proof -
  have h1: "analyze_pds_background
     (PDict [(''work_experience'',
              PList [PDict [(''position_title'', PStr ''Clerk'')],
                     PDict [(''position_title'', PStr ''HR Officer''),
                            (''department_office'', PStr ''HRMO'')]])]) =
   Inr \<lparr> education_fields = [],
         work_experience_areas = [PStr ''Clerk'', PStr ''HR Officer'', PStr ''HRMO''],
         training_areas = [], key_skills = [] \<rparr>"
    by (simp add: analyzer_defs)
  have h2: "map_of [(''work_experience'',
              PList [PDict [(''position_title'', PStr ''Clerk'')],
                     PDict [(''position_title'', PStr ''HR Officer''),
                            (''department_office'', PStr ''HRMO'')]])] ''work_experience'' =
            Some (PList ([PDict [(''position_title'', PStr ''Clerk'')]] @
                     PDict [(''position_title'', PStr ''HR Officer''),
                            (''department_office'', PStr ''HRMO'')] # []))"
    by simp
  have h3: "map_of [(''position_title'', PStr ''HR Officer''), (''department_office'', PStr ''HRMO'')]
              ''position_title'' = Some (PStr ''HR Officer'') \<and> truthy (PStr ''HR Officer'') \<and>
            map_of [(''position_title'', PStr ''HR Officer''), (''department_office'', PStr ''HRMO'')]
              ''department_office'' = Some (PStr ''HRMO'') \<and> truthy (PStr ''HRMO'')"
    by simp
  note r = work_experience_both_fields[OF h1 h2, THEN conjunct2, THEN conjunct2, THEN conjunct2,
             THEN spec, THEN spec, THEN mp, OF h3]
  show ?thesis by (intro conjI h1 r)
qed

subsection \<open>C4: malformed nested values are skipped\<close>

text \<open>
  C4. For every candidate record that is a mapping the analyzer returns a profile and
  raises nothing. A missing section leaves its bucket empty, and so does an
  \<open>educational_background\<close> that is not a dictionary and a \<open>work_experience\<close> or
  \<open>learning_development\<close> that is not a list. Entries that are not dictionaries contribute
  nothing: each bucket is what the loop yields on the dictionary entries alone. Inside
  \<open>educational_background\<close>, a missing level and a level that is neither a list nor a
  dictionary leave the bucket unchanged.
\<close>

theorem analyzer_skips_malformed:
  "(\<exists>p. analyze_pds_background (PDict d) = Inr p) \<and>
   (\<forall>p. analyze_pds_background (PDict d) = Inr p \<longrightarrow>
      (map_of d ''educational_background'' = None \<longrightarrow> education_fields p = []) \<and>
      (map_of d ''work_experience'' = None \<longrightarrow> work_experience_areas p = []) \<and>
      (map_of d ''learning_development'' = None \<longrightarrow> training_areas p = []) \<and>
      (\<forall>v. map_of d ''educational_background'' = Some v \<and> \<not> is_dict v \<longrightarrow>
           education_fields p = []) \<and>
      (\<forall>v. map_of d ''work_experience'' = Some v \<and> \<not> is_list v \<longrightarrow>
           work_experience_areas p = []) \<and>
      (\<forall>v. map_of d ''learning_development'' = Some v \<and> \<not> is_list v \<longrightarrow>
           training_areas p = []) \<and>
      (\<forall>es. map_of d ''work_experience'' = Some (PList es) \<longrightarrow>
           work_experience_areas p = foldl add_experience [] (filter is_dict es)) \<and>
      (\<forall>es. map_of d ''learning_development'' = Some (PList es) \<longrightarrow>
           training_areas p = foldl add_training [] (filter is_dict es)) \<and>
      (\<forall>edu. map_of d ''educational_background'' = Some (PDict edu) \<longrightarrow>
           education_fields p = foldl (visit_level edu) [] education_levels \<and>
           (\<forall>level acc. map_of edu level = None \<longrightarrow> visit_level edu acc level = acc) \<and>
           (\<forall>level acc v. map_of edu level = Some v \<and> \<not> is_dict v \<and> \<not> is_list v \<longrightarrow>
                visit_level edu acc level = acc) \<and>
           (\<forall>level acc cs. map_of edu level = Some (PList cs) \<longrightarrow>
                visit_level edu acc level = foldl add_course acc (filter is_dict cs))))"
proof (intro conjI allI impI)
  show "\<exists>p. analyze_pds_background (PDict d) = Inr p"
    by (simp add: analyze_pds_background_def)
next
  fix p assume p: "analyze_pds_background (PDict d) = Inr p"
  note b = analyze_Inr[OF p]
  { assume "map_of d ''educational_background'' = None"
    then show "education_fields p = []" using b by (simp add: analyze_missing) }
  { assume "map_of d ''work_experience'' = None"
    then show "work_experience_areas p = []" using b by (simp add: analyze_missing) }
  { assume "map_of d ''learning_development'' = None"
    then show "training_areas p = []" using b by (simp add: analyze_missing) }
  { fix v assume "map_of d ''educational_background'' = Some v \<and> \<not> is_dict v"
    then show "education_fields p = []" using b by (simp add: analyze_education_skip) }
  { fix v assume "map_of d ''work_experience'' = Some v \<and> \<not> is_list v"
    then show "work_experience_areas p = []" using b by (simp add: analyze_work_skip) }
  { fix v assume "map_of d ''learning_development'' = Some v \<and> \<not> is_list v"
    then show "training_areas p = []" using b by (simp add: analyze_training_skip) }
  { fix es assume "map_of d ''work_experience'' = Some (PList es)"
    then show "work_experience_areas p = foldl add_experience [] (filter is_dict es)"
      using b by (simp add: analyze_work_list foldl_add_experience
                    concat_map_filter_skip[of is_dict, OF add_experience_skip]) }
  { fix es assume "map_of d ''learning_development'' = Some (PList es)"
    then show "training_areas p = foldl add_training [] (filter is_dict es)"
      using b by (simp add: analyze_training_list foldl_add_training
                    concat_map_filter_skip[of is_dict, OF add_training_skip]) }
  { fix edu assume e: "map_of d ''educational_background'' = Some (PDict edu)"
    show "education_fields p = foldl (visit_level edu) [] education_levels"
      using b e by (simp add: analyze_education_def dict_get_def)
    { fix level acc assume "map_of edu level = None"
      then show "visit_level edu acc level = acc" by (rule visit_level_missing) }
    { fix level acc v assume "map_of edu level = Some v \<and> \<not> is_dict v \<and> \<not> is_list v"
      then show "visit_level edu acc level = acc" by (simp add: visit_level_skip) }
    { fix level acc cs assume l: "map_of edu level = Some (PList cs)"
      show "visit_level edu acc level = foldl add_course acc (filter is_dict cs)"
        using visit_level_append[of edu acc level] visit_level_list[OF l]
        by (simp add: foldl_add_course[of acc]
              concat_map_filter_skip[of is_dict, OF add_course_skip]) } }
qed

text \<open>
  An instance of C4: \<open>educational_background\<close> is a string and \<open>work_experience\<close> holds
  an integer next to a proper entry.
\<close>

theorem analyzer_skips_malformed_witness:
  "analyze_pds_background
     (PDict [(''educational_background'', PStr ''n/a''),
             (''work_experience'', PList [PInt 3, PDict [(''position_title'', PStr ''Clerk'')]])]) =
   Inr \<lparr> education_fields = [], work_experience_areas = [PStr ''Clerk''],
         training_areas = [], key_skills = [] \<rparr> \<and>
   \<not> is_dict (PStr ''n/a'') \<and>
   education_fields
     \<lparr> education_fields = [], work_experience_areas = [PStr ''Clerk''],
       training_areas = [], key_skills = [] \<rparr> = [] \<and>
   work_experience_areas
     \<lparr> education_fields = [], work_experience_areas = [PStr ''Clerk''],
       training_areas = [], key_skills = [] \<rparr> =
     foldl add_experience []
       (filter is_dict [PInt 3, PDict [(''position_title'', PStr ''Clerk'')]])"
proof -
  have h1: "analyze_pds_background
     (PDict [(''educational_background'', PStr ''n/a''),
             (''work_experience'', PList [PInt 3, PDict [(''position_title'', PStr ''Clerk'')]])]) =
   Inr \<lparr> education_fields = [], work_experience_areas = [PStr ''Clerk''],
         training_areas = [], key_skills = [] \<rparr>"
    by (simp add: analyzer_defs)
  have k: "\<not> is_dict (PStr ''n/a'')" by simp
  have h2: "map_of [(''educational_background'', PStr ''n/a''),
             (''work_experience'', PList [PInt 3, PDict [(''position_title'', PStr ''Clerk'')]])]
             ''educational_background'' = Some (PStr ''n/a'') \<and> \<not> is_dict (PStr ''n/a'')"
    by simp
  have h3: "map_of [(''educational_background'', PStr ''n/a''),
             (''work_experience'', PList [PInt 3, PDict [(''position_title'', PStr ''Clerk'')]])]
             ''work_experience'' =
            Some (PList [PInt 3, PDict [(''position_title'', PStr ''Clerk'')]])"
    by simp
  note c = analyzer_skips_malformed[THEN conjunct2, THEN spec, THEN mp, OF h1]
  note r1 = c[THEN conjunct2, THEN conjunct2, THEN conjunct2, THEN conjunct1,
              THEN spec, THEN mp, OF h2]
  note r2 = c[THEN conjunct2, THEN conjunct2, THEN conjunct2, THEN conjunct2, THEN conjunct2,
              THEN conjunct2, THEN conjunct1, THEN spec, THEN mp, OF h3]
  show ?thesis by (intro conjI h1 k r1 r2)
qed

subsection \<open>C5: order of the buckets and duplicates\<close>

text \<open>
  C5, as the code has it. The work-experience bucket lists, entry by entry in the order of
  the source list, the non-empty \<open>position_title\<close> and then the non-empty
  \<open>department_office\<close> of each dictionary entry; the training bucket lists the non-empty
  \<open>title\<close> of each dictionary entry in the order of the source list. The education bucket
  lists the levels in the fixed order \<open>college\<close>, \<open>graduate_studies\<close>, \<open>post_graduate\<close>,
  whatever the order of the keys in the record, and within a level the non-empty \<open>course\<close>
  of each dictionary entry in the order of the level's list (a single dictionary counting as
  a one-element list). Nothing is deduplicated: a non-empty value occurs in a bucket once
  for every entry field that carries it, so a title or a course carried by \<open>n\<close> entries
  occurs \<open>n\<close> times, and a value that is both the position title and the office of an
  entry is counted for both.
\<close>

theorem buckets_keep_order_and_duplicates:
  assumes "analyze_pds_background (PDict d) = Inr p"
  shows "(\<forall>es. map_of d ''work_experience'' = Some (PList es) \<longrightarrow>
            work_experience_areas p =
              [v. PDict x \<leftarrow> es,
                  v \<leftarrow> [dict_get x ''position_title'' (PStr []),
                        dict_get x ''department_office'' (PStr [])],
                  truthy v] \<and>
            (\<forall>v. truthy v \<longrightarrow>
               count_list (work_experience_areas p) v =
                 length [x. PDict x \<leftarrow> es, dict_get x ''position_title'' (PStr []) = v] +
                 length [x. PDict x \<leftarrow> es, dict_get x ''department_office'' (PStr []) = v])) \<and>
         (\<forall>es. map_of d ''learning_development'' = Some (PList es) \<longrightarrow>
            training_areas p =
              [dict_get t ''title'' (PStr []).
                 PDict t \<leftarrow> es, truthy (dict_get t ''title'' (PStr []))] \<and>
            (\<forall>v. truthy v \<longrightarrow>
               count_list (training_areas p) v =
                 length [t. PDict t \<leftarrow> es, dict_get t ''title'' (PStr []) = v])) \<and>
         (\<forall>edu. map_of d ''educational_background'' = Some (PDict edu) \<longrightarrow>
            education_fields p =
              [v. level \<leftarrow> [''college'', ''graduate_studies'', ''post_graduate''],
                  entry \<leftarrow> (case map_of edu level of
                               Some (PList cs) \<Rightarrow> cs
                             | Some (PDict c) \<Rightarrow> [PDict c]
                             | _ \<Rightarrow> []),
                  PDict c \<leftarrow> [entry], v \<leftarrow> [dict_get c ''course'' PNone], truthy v] \<and>
            (\<forall>v. truthy v \<longrightarrow>
               count_list (education_fields p) v =
                 length [c. level \<leftarrow> [''college'', ''graduate_studies'', ''post_graduate''],
                            entry \<leftarrow> (case map_of edu level of
                                         Some (PList cs) \<Rightarrow> cs
                                       | Some (PDict c) \<Rightarrow> [PDict c]
                                       | _ \<Rightarrow> []),
                            PDict c \<leftarrow> [entry], dict_get c ''course'' PNone = v]))"
proof -
  note b = analyze_Inr[OF assms]
  have w: "work_experience_areas p = concat (map (add_experience []) es)"
    if "map_of d ''work_experience'' = Some (PList es)" for es
    using b that by (simp add: analyze_work_list)
  have t: "training_areas p = concat (map (add_training []) es)"
    if "map_of d ''learning_development'' = Some (PList es)" for es
    using b that by (simp add: analyze_training_list)
  have e: "education_fields p = analyze_education d" using b by simp
  show ?thesis
  proof (intro conjI allI impI)
    fix es assume h: "map_of d ''work_experience'' = Some (PList es)"
    show "work_experience_areas p =
              [v. PDict x \<leftarrow> es,
                  v \<leftarrow> [dict_get x ''position_title'' (PStr []),
                        dict_get x ''department_office'' (PStr [])],
                  truthy v]"
      unfolding w[OF h] by (rule work_collected)
    fix v assume "truthy v"
    then show "count_list (work_experience_areas p) v =
                 length [x. PDict x \<leftarrow> es, dict_get x ''position_title'' (PStr []) = v] +
                 length [x. PDict x \<leftarrow> es, dict_get x ''department_office'' (PStr []) = v]"
      unfolding w[OF h] by (rule work_count)
  next
    fix es assume h: "map_of d ''learning_development'' = Some (PList es)"
    show "training_areas p =
              [dict_get t ''title'' (PStr []).
                 PDict t \<leftarrow> es, truthy (dict_get t ''title'' (PStr []))]"
      unfolding t[OF h] by (rule training_collected)
    fix v assume "truthy v"
    then show "count_list (training_areas p) v =
                 length [t. PDict t \<leftarrow> es, dict_get t ''title'' (PStr []) = v]"
      unfolding t[OF h] by (rule training_count)
  next
    fix edu assume h: "map_of d ''educational_background'' = Some (PDict edu)"
    show "education_fields p =
              [v. level \<leftarrow> [''college'', ''graduate_studies'', ''post_graduate''],
                  entry \<leftarrow> (case map_of edu level of
                               Some (PList cs) \<Rightarrow> cs
                             | Some (PDict c) \<Rightarrow> [PDict c]
                             | _ \<Rightarrow> []),
                  PDict c \<leftarrow> [entry], v \<leftarrow> [dict_get c ''course'' PNone], truthy v]"
      unfolding e by (rule education_collected[OF h])
    fix v assume "truthy v"
    then show "count_list (education_fields p) v =
                 length [c. level \<leftarrow> [''college'', ''graduate_studies'', ''post_graduate''],
                            entry \<leftarrow> (case map_of edu level of
                                         Some (PList cs) \<Rightarrow> cs
                                       | Some (PDict c) \<Rightarrow> [PDict c]
                                       | _ \<Rightarrow> []),
                            PDict c \<leftarrow> [entry], dict_get c ''course'' PNone = v]"
      unfolding e by (rule education_count[OF h])
  qed
qed

text \<open>
  An instance of C5: a training title carried by the first and the third entry occurs
  twice.
\<close>

theorem buckets_keep_order_and_duplicates_witness:
  "analyze_pds_background
     (PDict [(''learning_development'',
              PList [PDict [(''title'', PStr ''GAD'')], PDict [(''title'', PStr ''ICT'')],
                     PDict [(''title'', PStr ''GAD'')]])]) =
   Inr \<lparr> education_fields = [], work_experience_areas = [],
         training_areas = [PStr ''GAD'', PStr ''ICT'', PStr ''GAD''], key_skills = [] \<rparr> \<and>
   truthy (PStr ''GAD'') \<and>
   count_list
     (training_areas
        \<lparr> education_fields = [], work_experience_areas = [],
          training_areas = [PStr ''GAD'', PStr ''ICT'', PStr ''GAD''], key_skills = [] \<rparr>)
     (PStr ''GAD'') = 2"
proof -
  have h1: "analyze_pds_background
     (PDict [(''learning_development'',
              PList [PDict [(''title'', PStr ''GAD'')], PDict [(''title'', PStr ''ICT'')],
                     PDict [(''title'', PStr ''GAD'')]])]) =
   Inr \<lparr> education_fields = [], work_experience_areas = [],
         training_areas = [PStr ''GAD'', PStr ''ICT'', PStr ''GAD''], key_skills = [] \<rparr>"
    by (simp add: analyzer_defs)
  have h2: "map_of [(''learning_development'',
              PList [PDict [(''title'', PStr ''GAD'')], PDict [(''title'', PStr ''ICT'')],
                     PDict [(''title'', PStr ''GAD'')]])] ''learning_development'' =
            Some (PList [PDict [(''title'', PStr ''GAD'')], PDict [(''title'', PStr ''ICT'')],
                     PDict [(''title'', PStr ''GAD'')]])"
    by simp
  have h3: "truthy (PStr ''GAD'')" by simp
  note r = buckets_keep_order_and_duplicates[OF h1, THEN conjunct2, THEN conjunct1,
             THEN spec, THEN mp, OF h2, THEN conjunct2, THEN spec, THEN mp, OF h3]
  have c: "count_list
     (training_areas
        \<lparr> education_fields = [], work_experience_areas = [],
          training_areas = [PStr ''GAD'', PStr ''ICT'', PStr ''GAD''], key_skills = [] \<rparr>)
     (PStr ''GAD'') = 2"
    using r by (simp add: dict_get_def)
  show ?thesis by (intro conjI h1 h3 c)
qed

text \<open>
  The education bucket does not follow the insertion order of the record: a record that
  lists \<open>post_graduate\<close> before \<open>college\<close> still gets the college course first. And one
  entry can contribute the same value twice, as position title and as office.
\<close>

theorem bucket_order_and_count_differ:
  "analyze_pds_background
     (PDict [(''educational_background'',
              PDict [(''post_graduate'', PDict [(''course'', PStr ''PhD'')]),
                     (''college'', PDict [(''course'', PStr ''BS'')])]),
             (''work_experience'',
              PList [PDict [(''position_title'', PStr ''Registrar''),
                            (''department_office'', PStr ''Registrar'')]])]) =
   Inr \<lparr> education_fields = [PStr ''BS'', PStr ''PhD''],
         work_experience_areas = [PStr ''Registrar'', PStr ''Registrar''],
         training_areas = [], key_skills = [] \<rparr>"
  by (simp add: analyzer_defs)

subsection \<open>C6: dates and ratings are rejected by the validator\<close>




subsection \<open>C7: reference names and reference data\<close>



subsection \<open>C8: score ranges and the weighted total\<close>




subsection \<open>C9: the key-skills bucket stays empty\<close>

text \<open>
  C9. Whatever the candidate record is, a profile returned by the analyzer has an empty
  \<open>key_skills\<close> bucket: the field is initialised and no path adds to it. A record that is
  a mapping always gets such a profile.
\<close>

theorem key_skills_always_empty:
  "(\<exists>p. analyze_pds_background (PDict d) = Inr p \<and> key_skills p = []) \<and>
   (\<forall>p. analyze_pds_background pds_data = Inr p \<longrightarrow> key_skills p = [])"
  by (auto simp: analyze_pds_background_def split: pyval.splits)

text \<open>
  An instance of C9: a record with one training entry.
\<close>

theorem key_skills_always_empty_witness:
  "analyze_pds_background
     (PDict [(''learning_development'', PList [PDict [(''title'', PStr ''GAD Seminar'')]])]) =
   Inr \<lparr> education_fields = [], work_experience_areas = [],
         training_areas = [PStr ''GAD Seminar''], key_skills = [] \<rparr> \<and>
   key_skills \<lparr> education_fields = [], work_experience_areas = [],
                training_areas = [PStr ''GAD Seminar''], key_skills = [] \<rparr> = []"
proof -
  have h: "analyze_pds_background
     (PDict [(''learning_development'', PList [PDict [(''title'', PStr ''GAD Seminar'')]])]) =
   Inr \<lparr> education_fields = [], work_experience_areas = [],
         training_areas = [PStr ''GAD Seminar''], key_skills = [] \<rparr>"
    by (simp add: analyzer_defs)
  note r = key_skills_always_empty[THEN conjunct2, THEN spec, THEN mp, OF h]
  show ?thesis by (intro conjI h r)
qed

subsection \<open>C10: bucket elements are truthy values\<close>




end
